theory Spec2Isabelle
  imports Main "HOL-Library.Log_Nat"
begin

section \<open>Python values\<close>

text \<open>
  A Python float is a sign, a mantissa that is not negative and a binary exponent (the value
  is \<open>\<plusminus> m * 2 ^ e\<close>), an infinity or a NaN. The IEEE doubles are a subset of these values.
\<close>

datatype pyfloat = Finite bool int int | Inf bool | NaN

subsection \<open>Earth Engine expressions\<close>

text \<open>
  The Earth Engine client library computes nothing when an \<open>ee\<close> method is called: each call
  builds a node of an expression, and \<open>getInfo()\<close> sends the expression to the server.
  The datatypes below are the expressions that \<open>llm_core.py\<close> builds, one constructor for
  each \<open>ee\<close> call of the source.
\<close>

datatype geometry =
    Point pyfloat pyfloat      \<comment> \<open>\<open>ee.Geometry.Point([lon, lat])\<close>\<close>
  | Buffer geometry int        \<comment> \<open>\<open>g.buffer(distance)\<close>, distance in metres\<close>

datatype ee_filter = Filter_lt string int

datatype feature_collection =
    FeatureCollection string
  | FC_filterBounds feature_collection geometry

datatype image =
    ArgImage                              \<comment> \<open>the argument of a function given to \<open>map\<close>\<close>
  | Constant int                          \<comment> \<open>\<open>ee.Image(c)\<close>\<close>
  | First image_collection
  | Select image string
  | BitwiseAnd image int
  | EqC image int
  | And image image
  | GtC image int
  | UpdateMask image image
  | Displacement image image int int      \<comment> \<open>image, referenceImage, maxOffset, patchWidth\<close>
  | Hypot image image
  | Divide image int
  | Rename image string
  | Paint image feature_collection int
and image_collection =
    ImageCollection string
  | IC_filterBounds image_collection geometry
  | IC_filterDate image_collection string string
  | IC_filter image_collection ee_filter
  | IC_map image_collection image         \<comment> \<open>the body of the mapped function, over \<open>ArgImage\<close>\<close>
  | IC_sort image_collection string

datatype reducer =
    Reducer_mean
  | Reducer_minMax
  | Reducer_combine reducer reducer string bool

datatype computed =
    IC_size image_collection
  | FC_size feature_collection
  | ReduceRegion image reducer geometry int pyfloat   \<comment> \<open>image, reducer, geometry, scale, maxPixels\<close>

subsection \<open>Values and dictionaries\<close>

datatype pyval =
    PNone
  | PBool bool
  | PInt int
  | PFloat pyfloat
  | PStr string
  | PTuple "pyval list"
  | PDict "(string \<times> pyval) list"
  | PImage image
  | PFeatures feature_collection

text \<open>\<open>d.get(k)\<close> and \<open>d.get(k, default)\<close> on a dictionary with string keys.\<close>

definition dict_get :: "(string \<times> pyval) list \<Rightarrow> string \<Rightarrow> pyval \<Rightarrow> pyval" where
  "dict_get d k dflt = (case map_of d k of None \<Rightarrow> dflt | Some v \<Rightarrow> v)"

text \<open>Decimal numerals, as \<open>str\<close> prints an \<open>int\<close>.\<close>

definition digit_char :: "int \<Rightarrow> char" where
  "digit_char d = char_of (48 + d)"

function dec_digits :: "int \<Rightarrow> string" where
  "dec_digits n =
     (if n < 10 then [digit_char n] else dec_digits (n div 10) @ [digit_char (n mod 10)])"
  by auto

termination dec_digits
  by (relation "measure nat") auto

declare dec_digits.simps [simp del]

definition str_int :: "int \<Rightarrow> string" where
  "str_int i = (if i < 0 then CHR ''-'' # dec_digits (- i) else dec_digits i)"

text \<open>A numeral padded with zeros on the left, to a width.\<close>

definition pad_left :: "nat \<Rightarrow> string \<Rightarrow> string" where
  "pad_left w s = replicate (w - length s) (CHR ''0'') @ s"

text \<open>
  \<open>repr\<close> of a \<open>str\<close>, which \<open>%r\<close> prints. A \<open>str\<close> is held as the list of its
  code points, all below 256. The quote is \<open>'\<close>, unless the text has a \<open>'\<close> and no
  \<open>"\<close>; the backslash, the quote, and the code points that are not printable (below 32,
  127 to 160, and 173) are escaped.
\<close>

definition hex_digit :: "nat \<Rightarrow> char" where
  "hex_digit d = (if d < 10 then char_of (48 + d) else char_of (87 + d))"

definition repr_char :: "char \<Rightarrow> char \<Rightarrow> string" where
  "repr_char q c =
     (let n = (of_char c :: nat) in
      if c = CHR 0x5C then [CHR 0x5C, CHR 0x5C]
      else if c = q then [CHR 0x5C, q]
      else if n = 9 then [CHR 0x5C, CHR ''t'']
      else if n = 10 then [CHR 0x5C, CHR ''n'']
      else if n = 13 then [CHR 0x5C, CHR ''r'']
      else if n < 32 \<or> (127 \<le> n \<and> n \<le> 160) \<or> n = 173
        then [CHR 0x5C, CHR ''x'', hex_digit (n div 16), hex_digit (n mod 16)]
      else [c])"

definition py_repr :: "string \<Rightarrow> string" where
  "py_repr s =
     (let q = (if CHR 0x27 \<in> set s \<and> CHR 0x22 \<notin> set s then CHR 0x22 else CHR 0x27)
      in q # concat (map (repr_char q) s) @ [q])"

section \<open>Dates\<close>

text \<open>
  A \<open>datetime\<close> at midnight, and a \<open>date\<close>, is held as its proleptic Gregorian ordinal
  (day 1 is 0001-01-01), the number \<open>toordinal()\<close> returns. The functions below follow
  the \<open>datetime\<close> module.
\<close>

definition is_leap :: "int \<Rightarrow> bool" where
  "is_leap y = (y mod 4 = 0 \<and> (y mod 100 \<noteq> 0 \<or> y mod 400 = 0))"

definition days_in_month :: "int \<Rightarrow> int \<Rightarrow> int" where
  "days_in_month y m =
     (if m = 2 then (if is_leap y then 29 else 28)
      else if m = 4 \<or> m = 6 \<or> m = 9 \<or> m = 11 then 30 else 31)"

definition days_before_year :: "int \<Rightarrow> int" where
  "days_before_year y = (y - 1) * 365 + (y - 1) div 4 - (y - 1) div 100 + (y - 1) div 400"

definition days_before_month :: "int \<Rightarrow> int \<Rightarrow> int" where
  "days_before_month y m = (\<Sum>k \<leftarrow> [1 ..< nat m]. days_in_month y (int k))"

definition ymd2ord :: "int \<Rightarrow> int \<Rightarrow> int \<Rightarrow> int" where
  "ymd2ord y m d = days_before_year y + days_before_month y m + d"

definition max_ordinal :: int where
  "max_ordinal = 3652059"   \<comment> \<open>9999-12-31\<close>

text \<open>The exceptions of the program.\<close>

datatype exn =
    TimeDataMismatch string       \<comment> \<open>ValueError: time data does not match format\<close>
  | UnconvertedData string        \<comment> \<open>ValueError: unconverted data remains\<close>
  | YearOutOfRange int            \<comment> \<open>ValueError: year 0 is out of range\<close>
  | DayOutOfRange                 \<comment> \<open>ValueError: day is out of range for month\<close>
  | DateOverflow                  \<comment> \<open>OverflowError: date value out of range\<close>
  | EEException string            \<comment> \<open>a fault of the Earth Engine client or server\<close>
  | TypeError string
  | ValueError string
  | OverflowError string
  | AttributeError string string  \<comment> \<open>the type of the object and the attribute it lacks\<close>
  | KeyError string
  | IndexError string
  | GenAIError string             \<comment> \<open>a fault of the generative model's client or server\<close>

definition is_digit :: "char \<Rightarrow> bool" where
  "is_digit c = (48 \<le> (of_char c :: nat) \<and> (of_char c :: nat) \<le> 57)"

definition digit_val :: "char \<Rightarrow> int" where
  "digit_val c = int (of_char c) - 48"

text \<open>
  \<open>%m\<close> is the regular expression \<open>1[0-2]|0[1-9]|[1-9]\<close> and must be followed by the
  \<open>-\<close> of the format. The result is the month and the text after the \<open>-\<close>.
\<close>

fun parse_month :: "string \<Rightarrow> (int \<times> string) option" where
  "parse_month (a # b # c # r) =
     (if a = CHR ''1'' \<and> b \<in> {CHR ''0'', CHR ''1'', CHR ''2''} \<and> c = CHR ''-''
        then Some (10 + digit_val b, r)
      else if a = CHR ''0'' \<and> is_digit b \<and> b \<noteq> CHR ''0'' \<and> c = CHR ''-''
        then Some (digit_val b, r)
      else if is_digit a \<and> a \<noteq> CHR ''0'' \<and> b = CHR ''-''
        then Some (digit_val a, c # r)
      else None)"
| "parse_month [a, b] =
     (if is_digit a \<and> a \<noteq> CHR ''0'' \<and> b = CHR ''-'' then Some (digit_val a, []) else None)"
| "parse_month _ = None"

text \<open>
  \<open>%d\<close> is \<open>3[0-1]|[1-2]\d|0[1-9]|[1-9]| [1-9]\<close>; nothing of the format follows it, so
  the first alternative that matches is taken. The result is the day and the text left over.
\<close>

fun parse_day :: "string \<Rightarrow> (int \<times> string) option" where
  "parse_day (a # b # r) =
     (if a = CHR ''3'' \<and> (b = CHR ''0'' \<or> b = CHR ''1'') then Some (30 + digit_val b, r)
      else if (a = CHR ''1'' \<or> a = CHR ''2'') \<and> is_digit b then Some (10 * digit_val a + digit_val b, r)
      else if a = CHR ''0'' \<and> is_digit b \<and> b \<noteq> CHR ''0'' then Some (digit_val b, r)
      else if is_digit a \<and> a \<noteq> CHR ''0'' then Some (digit_val a, b # r)
      else if a = CHR '' '' \<and> is_digit b \<and> b \<noteq> CHR ''0'' then Some (digit_val b, r)
      else None)"
| "parse_day [a] = (if is_digit a \<and> a \<noteq> CHR ''0'' then Some (digit_val a, []) else None)"
| "parse_day [] = None"

text \<open>
  \<open>datetime.datetime.strptime(s, "%Y-%m-%d")\<close>: four digits of year, \<open>-\<close>, month, \<open>-\<close>, day,
  and nothing after; then the date must exist.
\<close>

fun strptime :: "string \<Rightarrow> exn + int" where
  "strptime (y1 # y2 # y3 # y4 # h # r) =
     (if is_digit y1 \<and> is_digit y2 \<and> is_digit y3 \<and> is_digit y4 \<and> h = CHR ''-'' then
        (case parse_month r of
           None \<Rightarrow> Inl (TimeDataMismatch (y1 # y2 # y3 # y4 # h # r))
         | Some (m, r') \<Rightarrow>
            (case parse_day r' of
               None \<Rightarrow> Inl (TimeDataMismatch (y1 # y2 # y3 # y4 # h # r))
             | Some (d, rest) \<Rightarrow>
                (let y = 1000 * digit_val y1 + 100 * digit_val y2 + 10 * digit_val y3 + digit_val y4
                 in if rest \<noteq> [] then Inl (UnconvertedData rest)
                    else if y < 1 then Inl (YearOutOfRange y)
                    else if d > days_in_month y m then Inl DayOutOfRange
                    else Inr (ymd2ord y m d))))
      else Inl (TimeDataMismatch (y1 # y2 # y3 # y4 # h # r)))"
| "strptime s = Inl (TimeDataMismatch s)"

text \<open>\<open>dt + datetime.timedelta(days=n)\<close>; the result must be a date of the years 1 to 9999.\<close>

definition add_days :: "int \<Rightarrow> int \<Rightarrow> exn + int" where
  "add_days dt n = (if 1 \<le> dt + n \<and> dt + n \<le> max_ordinal then Inr (dt + n) else Inl DateOverflow)"

section \<open>The environment of the program\<close>

text \<open>
  What the program takes from outside: the answers of the Earth Engine server to
  \<open>getInfo()\<close> (a value or a fault), the text \<open>str(e)\<close> of an exception, and
  \<open>strftime("%Y-%m-%d")\<close>. The server answers the same request the same way during
  one action.
\<close>

record env =
  size_info :: "computed \<Rightarrow> exn + int"        \<comment> \<open>\<open>c.size().getInfo()\<close>\<close>
  stats_info :: "computed \<Rightarrow> exn + pyval"     \<comment> \<open>\<open>img.reduceRegion(...).getInfo()\<close>\<close>
  str_exn :: "exn \<Rightarrow> string"
  strftime :: "int \<Rightarrow> string"

text \<open>
  A computation may raise and may call the server; the calls made are recorded, in order.
\<close>

type_synonym 'a eff = "computed list \<Rightarrow> (exn + 'a) \<times> computed list"

definition ret :: "'a \<Rightarrow> 'a eff" where
  "ret x = (\<lambda>tr. (Inr x, tr))"

definition lift :: "exn + 'a \<Rightarrow> 'a eff" where
  "lift r = (\<lambda>tr. (r, tr))"

definition bind :: "'a eff \<Rightarrow> ('a \<Rightarrow> 'b eff) \<Rightarrow> 'b eff" where
  "bind m f = (\<lambda>tr. case m tr of (Inl e, tr') \<Rightarrow> (Inl e, tr') | (Inr x, tr') \<Rightarrow> f x tr')"

definition getInfo_size :: "env \<Rightarrow> computed \<Rightarrow> int eff" where
  "getInfo_size E c = (\<lambda>tr. (size_info E c, tr @ [c]))"

definition getInfo_stats :: "env \<Rightarrow> computed \<Rightarrow> pyval eff" where
  "getInfo_stats E c = (\<lambda>tr. (stats_info E c, tr @ [c]))"

section \<open>GlacierVelocityEngine\<close>

record engine =
  max_offset_m :: int
  window_days :: int

definition GlacierVelocityEngine :: engine where
  "GlacierVelocityEngine = \<lparr>max_offset_m = 100, window_days = 30\<rparr>"

definition mask_s2_clouds :: "image \<Rightarrow> image" where
  "mask_s2_clouds img =
     (let qa = Select img ''QA60'';
          cloud_bit_mask = push_bit 10 (1::int);
          cirrus_bit_mask = push_bit 11 (1::int);
          mask = And (EqC (BitwiseAnd qa cloud_bit_mask) 0) (EqC (BitwiseAnd qa cirrus_bit_mask) 0)
      in UpdateMask img mask)"

definition get_sentinel2_collection :: "geometry \<Rightarrow> string \<Rightarrow> string \<Rightarrow> image_collection" where
  "get_sentinel2_collection aoi start_date end_date =
     IC_map
       (IC_filter
         (IC_filterDate
           (IC_filterBounds (ImageCollection ''COPERNICUS/S2_SR_HARMONIZED'') aoi)
           start_date end_date)
         (Filter_lt ''CLOUDY_PIXEL_PERCENTAGE'' 20))
       (mask_s2_clouds ArgImage)"

definition time_gap :: "int \<Rightarrow> int \<Rightarrow> int" where
  "time_gap dt1 dt2 = (let g = \<bar>dt2 - dt1\<bar> in if g = 0 then 1 else g)"

definition speed_field :: "engine \<Rightarrow> image_collection \<Rightarrow> image_collection \<Rightarrow> int \<Rightarrow> image" where
  "speed_field self col1 col2 time_gap_days =
     (let img1 = First (IC_sort col1 ''CLOUDY_PIXEL_PERCENTAGE'');
          img2 = First (IC_sort col2 ''CLOUDY_PIXEL_PERCENTAGE'');
          displacement = Displacement (Select img2 ''B8'') (Select img1 ''B8'') (max_offset_m self) 256;
          dx = Select displacement ''dx'';
          dy = Select displacement ''dy''
      in Rename (Divide (Hypot dx dy) time_gap_days) ''velocity'')"

definition insufficient_msg :: "int \<Rightarrow> int \<Rightarrow> string" where
  "insufficient_msg n1 n2 =
     ''Insufficient cloud-free images found. Period 1 had '' @ str_int n1 @
     '' images, Period 2 had '' @ str_int n2 @ ''. Try different dates.''"

definition failure :: "string \<Rightarrow> pyval" where
  "failure msg = PDict [(''success'', PBool False), (''error'', PStr msg)]"

definition glaciers_of :: "geometry \<Rightarrow> feature_collection" where
  "glaciers_of aoi = FC_filterBounds (FeatureCollection ''GLIMS/20230607'') aoi"

definition speed_final_of :: "image \<Rightarrow> feature_collection \<Rightarrow> image" where
  "speed_final_of speed_m_day glaciers =
     (let glacier_mask = GtC (Paint (Constant 0) glaciers 1) 0
      in UpdateMask speed_m_day glacier_mask)"

text \<open>The \<open>reduceRegion\<close> request; \<open>maxPixels\<close> is the float \<open>1e9\<close>, that is \<open>1953125 * 2 ^ 9\<close>.\<close>

definition stats_request :: "image \<Rightarrow> geometry \<Rightarrow> computed" where
  "stats_request speed_final aoi =
     ReduceRegion speed_final (Reducer_combine Reducer_mean Reducer_minMax [] True) aoi 100 (Finite False 1953125 9)"

text \<open>The body of the \<open>try\<close> of \<open>calculate_velocity\<close>.\<close>

definition calculate_velocity_try ::
  "env \<Rightarrow> engine \<Rightarrow> pyfloat \<Rightarrow> pyfloat \<Rightarrow> string \<Rightarrow> string \<Rightarrow> int \<Rightarrow> pyval eff" where
  "calculate_velocity_try E self lat lon date1 date2 buffer_km =
     (let point = Point lon lat;
          aoi = Buffer point (buffer_km * 1000)
      in
      bind (lift (strptime date1)) (\<lambda>dt1.
      bind (lift (strptime date2)) (\<lambda>dt2.
      bind (lift (add_days dt1 (- window_days self))) (\<lambda>s1.
      bind (lift (add_days dt1 (window_days self))) (\<lambda>e1.
      let col1 = get_sentinel2_collection aoi (strftime E s1) (strftime E e1) in
      bind (lift (add_days dt2 (- window_days self))) (\<lambda>s2.
      bind (lift (add_days dt2 (window_days self))) (\<lambda>e2.
      let col2 = get_sentinel2_collection aoi (strftime E s2) (strftime E e2) in
      bind (getInfo_size E (IC_size col1)) (\<lambda>n1.
      bind (if n1 = 0 then ret True
            else bind (getInfo_size E (IC_size col2)) (\<lambda>n2. ret (n2 = 0))) (\<lambda>insufficient.
      if insufficient then
        bind (getInfo_size E (IC_size col1)) (\<lambda>m1.
        bind (getInfo_size E (IC_size col2)) (\<lambda>m2.
        ret (failure (insufficient_msg m1 m2))))
      else
        let time_gap_days = time_gap dt1 dt2;
            speed_m_day = speed_field self col1 col2 time_gap_days;
            glaciers = glaciers_of aoi
        in
        bind (getInfo_size E (FC_size glaciers)) (\<lambda>g.
        if g = 0 then
          ret (failure ''No GLIMS glacier polygons found in the analysis area.'')
        else
          let speed_final = speed_final_of speed_m_day glaciers in
          bind (getInfo_stats E (stats_request speed_final aoi)) (\<lambda>stats.
          ret (PDict [(''success'', PBool True), (''velocity_m_day'', PImage speed_final),
                      (''glacier_polygons'', PFeatures glaciers),
                      (''time_gap_days'', PInt time_gap_days), (''stats'', stats),
                      (''analysis_dates'', PTuple [PStr date1, PStr date2])]))))))))))))"

text \<open>\<open>calculate_velocity\<close>: the \<open>try\<close> and its \<open>except Exception\<close>.\<close>

definition calculate_velocity ::
  "env \<Rightarrow> engine \<Rightarrow> pyfloat \<Rightarrow> pyfloat \<Rightarrow> string \<Rightarrow> string \<Rightarrow> int \<Rightarrow> computed list
     \<Rightarrow> pyval \<times> computed list" where
  "calculate_velocity E self lat lon date1 date2 buffer_km tr =
     (case calculate_velocity_try E self lat lon date1 date2 buffer_km tr of
        (Inr result, tr') \<Rightarrow> (result, tr')
      | (Inl e, tr') \<Rightarrow> (failure (''Velocity calculation failed: '' @ str_exn E e), tr'))"

text \<open>Names for the parts of a run of \<open>calculate_velocity\<close>, used to state its properties.\<close>

definition aoi_of :: "pyfloat \<Rightarrow> pyfloat \<Rightarrow> int \<Rightarrow> geometry" where
  "aoi_of lat lon buffer_km = Buffer (Point lon lat) (buffer_km * 1000)"

definition window_collection :: "env \<Rightarrow> geometry \<Rightarrow> int \<Rightarrow> int \<Rightarrow> image_collection" where
  "window_collection E aoi s e = get_sentinel2_collection aoi (strftime E s) (strftime E e)"

definition success_dict ::
  "engine \<Rightarrow> geometry \<Rightarrow> image_collection \<Rightarrow> image_collection \<Rightarrow> int \<Rightarrow> pyval \<Rightarrow> string \<Rightarrow> string
     \<Rightarrow> pyval" where
  "success_dict self aoi col1 col2 gap stats date1 date2 =
     PDict [(''success'', PBool True),
            (''velocity_m_day'',
               PImage (speed_final_of (speed_field self col1 col2 gap) (glaciers_of aoi))),
            (''glacier_polygons'', PFeatures (glaciers_of aoi)),
            (''time_gap_days'', PInt gap), (''stats'', stats),
            (''analysis_dates'', PTuple [PStr date1, PStr date2])]"

text \<open>The constant an image expression is divided by, looking through masks and renames.\<close>

fun divisor_of :: "image \<Rightarrow> int option" where
  "divisor_of (UpdateMask img m) = divisor_of img"
| "divisor_of (Rename img n) = divisor_of img"
| "divisor_of (Divide img c) = Some c"
| "divisor_of _ = None"

subsection \<open>A sample environment\<close>

text \<open>
  \<open>strftime("%Y-%m-%d")\<close> as the C library prints it: the year with no padding, the month
  and the day on two digits. The date is found from the ordinal as the \<open>datetime\<close> module
  does.
\<close>

definition ord2ymd :: "int \<Rightarrow> int \<times> int \<times> int" where
  "ord2ymd ordinal =
     (let n0 = ordinal - 1;
          n400 = n0 div 146097; r400 = n0 mod 146097;
          n100 = r400 div 36524; r100 = r400 mod 36524;
          n4 = r100 div 1461; r4 = r100 mod 1461;
          n1 = r4 div 365; n = r4 mod 365;
          year = n400 * 400 + 1 + n100 * 100 + n4 * 4 + n1
      in if n1 = 4 \<or> n100 = 4 then (year - 1, 12, 31)
         else
           let month = (n + 50) div 32;
               month' = (if days_before_month year month > n then month - 1 else month)
           in (year, month', n - days_before_month year month' + 1))"

definition strftime_iso :: "int \<Rightarrow> string" where
  "strftime_iso ordinal =
     (case ord2ymd ordinal of (y, m, d) \<Rightarrow>
        str_int y @ ''-'' @ pad_left 2 (str_int m) @ ''-'' @ pad_left 2 (str_int d))"

text \<open>\<open>str(e)\<close> of the exceptions.\<close>

definition str_exn_text :: "exn \<Rightarrow> string" where
  "str_exn_text e =
     (case e of
        TimeDataMismatch s \<Rightarrow>
          ''time data '' @ py_repr s @ '' does not match format '' @ py_repr ''%Y-%m-%d''
      | UnconvertedData s \<Rightarrow> ''unconverted data remains: '' @ s
      | YearOutOfRange y \<Rightarrow> ''year '' @ str_int y @ '' is out of range''
      | DayOutOfRange \<Rightarrow> ''day is out of range for month''
      | DateOverflow \<Rightarrow> ''date value out of range''
      | EEException s \<Rightarrow> s
      | TypeError s \<Rightarrow> s
      | ValueError s \<Rightarrow> s
      | OverflowError s \<Rightarrow> s
      | AttributeError t a \<Rightarrow>
          [CHR 0x27] @ t @ [CHR 0x27] @ '' object has no attribute '' @ [CHR 0x27] @ a @ [CHR 0x27]
      | KeyError k \<Rightarrow> py_repr k
      | IndexError s \<Rightarrow> s
      | GenAIError s \<Rightarrow> s)"

text \<open>
  A server on which every image collection has \<open>n\<close> images, every feature collection \<open>g\<close>
  features, and every reduction gives \<open>stats\<close>.
\<close>

definition sample_env :: "int \<Rightarrow> int \<Rightarrow> pyval \<Rightarrow> env" where
  "sample_env n g stats =
     \<lparr>size_info = (\<lambda>c. case c of IC_size _ \<Rightarrow> Inr n | FC_size _ \<Rightarrow> Inr g
                        | ReduceRegion _ _ _ _ _ \<Rightarrow> Inl (EEException ''not a collection'')),
      stats_info = (\<lambda>c. Inr stats),
      str_exn = str_exn_text,
      strftime = strftime_iso\<rparr>"

text \<open>
  A server on which the number of images of a collection depends on the first day of the
  date filter of the collection.
\<close>

fun start_date :: "image_collection \<Rightarrow> string" where
  "start_date (ImageCollection n) = []"
| "start_date (IC_filterBounds c g) = start_date c"
| "start_date (IC_filterDate c s e) = s"
| "start_date (IC_filter c f) = start_date c"
| "start_date (IC_map c body) = start_date c"
| "start_date (IC_sort c k) = start_date c"

definition dated_env :: "(string \<Rightarrow> int) \<Rightarrow> int \<Rightarrow> pyval \<Rightarrow> env" where
  "dated_env images g stats =
     \<lparr>size_info = (\<lambda>c. case c of IC_size col \<Rightarrow> Inr (images (start_date col))
                        | FC_size _ \<Rightarrow> Inr g
                        | ReduceRegion _ _ _ _ _ \<Rightarrow> Inl (EEException ''not a collection'')),
      stats_info = (\<lambda>c. Inr stats),
      str_exn = str_exn_text,
      strftime = strftime_iso\<rparr>"

text \<open>A server that answers every request with the same fault.\<close>

definition failing_env :: "string \<Rightarrow> env" where
  "failing_env msg =
     \<lparr>size_info = (\<lambda>c. Inl (EEException msg)),
      stats_info = (\<lambda>c. Inl (EEException msg)),
      str_exn = str_exn_text,
      strftime = strftime_iso\<rparr>"

definition sample_stats :: pyval where
  "sample_stats = PDict [(''velocity_mean'', PFloat (Finite False 1 (-1))),
                         (''velocity_min'', PFloat (Finite False 1 (-2))),
                         (''velocity_max'', PInt 2)]"

subsection \<open>Reading a numeral\<close>

text \<open>
  The number that a decimal numeral denotes, with an optional \<open>-\<close> before the digits: it
  says which number a printed count shows.
\<close>

fun digits_value :: "int \<Rightarrow> string \<Rightarrow> int option" where
  "digits_value acc [] = Some acc"
| "digits_value acc (c # cs) =
     (if is_digit c then digits_value (10 * acc + digit_val c) cs else None)"

definition numeral_value :: "string \<Rightarrow> int option" where
  "numeral_value s =
     (case s of
        [] \<Rightarrow> None
      | c # cs \<Rightarrow>
         if c = CHR ''-'' then (if cs = [] then None else map_option uminus (digits_value 0 cs))
         else digits_value 0 s)"

section \<open>Python numbers and their formatting\<close>

text \<open>Running a computation that may raise, then the next one on its value.\<close>

definition sbind :: "exn + 'a \<Rightarrow> ('a \<Rightarrow> exn + 'b) \<Rightarrow> exn + 'b" where
  "sbind m f = (case m of Inl e \<Rightarrow> Inl e | Inr x \<Rightarrow> f x)"

text \<open>\<open>int.bit_length()\<close> of an \<open>int\<close> that is not negative.\<close>

function bit_length :: "int \<Rightarrow> int" where
  "bit_length n = (if n \<le> 0 then 0 else 1 + bit_length (n div 2))"
  by auto

termination bit_length
  by (relation "measure nat") auto

declare bit_length.simps [simp del]

text \<open>
  The IEEE double nearest to \<open>\<plusminus> m * 2 ^ e\<close>, ties to the even mantissa: 53 bits of
  mantissa, the last bit no lower than \<open>2 ^ -1074\<close>, and an infinity from \<open>2 ^ 1024\<close> on.
  Every arithmetic operation of Python on floats rounds its exact result this way.
\<close>

definition round_double :: "bool \<Rightarrow> int \<Rightarrow> int \<Rightarrow> pyfloat" where
  "round_double s m e =
     (if m = 0 then Finite s 0 0
      else
        let top = bit_length m - 1 + e;
            t = max (top - 52) (- 1074)
        in if t \<le> e then (if 1023 < top then Inf s else Finite s m e)
           else
             let d = nat (t - e);
                 q = m div 2 ^ d;
                 r = m mod 2 ^ d;
                 q' = (if 2 ^ d < 2 * r \<or> (2 * r = 2 ^ d \<and> odd q) then q + 1 else q)
             in if 1024 < bit_length q' + t then Inf s else Finite s q' t)"

fun fmul :: "pyfloat \<Rightarrow> pyfloat \<Rightarrow> pyfloat" where
  "fmul NaN y = NaN"
| "fmul x NaN = NaN"
| "fmul (Inf s1) (Inf s2) = Inf (s1 \<noteq> s2)"
| "fmul (Inf s1) (Finite s2 m e) = (if m = 0 then NaN else Inf (s1 \<noteq> s2))"
| "fmul (Finite s1 m e) (Inf s2) = (if m = 0 then NaN else Inf (s1 \<noteq> s2))"
| "fmul (Finite s1 m1 e1) (Finite s2 m2 e2) = round_double (s1 \<noteq> s2) (m1 * m2) (e1 + e2)"

fun fadd :: "pyfloat \<Rightarrow> pyfloat \<Rightarrow> pyfloat" where
  "fadd NaN y = NaN"
| "fadd x NaN = NaN"
| "fadd (Inf s1) (Inf s2) = (if s1 = s2 then Inf s1 else NaN)"
| "fadd (Inf s1) (Finite s2 m e) = Inf s1"
| "fadd (Finite s1 m e) (Inf s2) = Inf s2"
| "fadd (Finite s1 m1 e1) (Finite s2 m2 e2) =
     (let e = min e1 e2;
          a = (if s1 then - m1 else m1) * 2 ^ nat (e1 - e);
          b = (if s2 then - m2 else m2) * 2 ^ nat (e2 - e);
          d = a + b
      in if d = 0 then Finite (s1 \<and> s2) 0 0 else round_double (d < 0) \<bar>d\<bar> e)"

fun fneg :: "pyfloat \<Rightarrow> pyfloat" where
  "fneg (Finite s m e) = Finite (\<not> s) m e"
| "fneg (Inf s) = Inf (\<not> s)"
| "fneg NaN = NaN"

definition fsub :: "pyfloat \<Rightarrow> pyfloat \<Rightarrow> pyfloat" where
  "fsub x y = fadd x (fneg y)"

text \<open>\<open>float(i)\<close> of an \<open>int\<close>.\<close>

definition float_of_int :: "int \<Rightarrow> exn + pyfloat" where
  "float_of_int i =
     (case round_double (i < 0) \<bar>i\<bar> 0 of
        Inf s \<Rightarrow> Inl (OverflowError ''int too large to convert to float'')
      | x \<Rightarrow> Inr x)"

text \<open>
  \<open>format(x, ".pf")\<close> of a float: the exact value of the float, rounded to \<open>p\<close> decimals,
  ties to the even last digit; all the digits of the integer part are printed, and the sign
  also on a zero.
\<close>

definition format_f :: "nat \<Rightarrow> pyfloat \<Rightarrow> string" where
  "format_f p x =
     (case x of
        NaN \<Rightarrow> ''nan''
      | Inf s \<Rightarrow> (if s then ''-inf'' else ''inf'')
      | Finite s m e \<Rightarrow>
         (let num = m * 10 ^ p;
              q = (if 0 \<le> e then num * 2 ^ nat e
                   else
                     let den = 2 ^ nat (- e);
                         q0 = num div den;
                         r = num mod den
                     in if den < 2 * r \<or> (2 * r = den \<and> odd q0) then q0 + 1 else q0);
              ds = pad_left (p + 1) (dec_digits q);
              body = (if p = 0 then ds
                      else take (length ds - p) ds @ ''.'' @ drop (length ds - p) ds)
          in (if s then ''-'' else []) @ body))"

subsection \<open>Operations on values\<close>

type_synonym dict = "(string \<times> pyval) list"

definition type_name :: "pyval \<Rightarrow> string" where
  "type_name v =
     (case v of
        PNone \<Rightarrow> ''NoneType'' | PBool b \<Rightarrow> ''bool'' | PInt i \<Rightarrow> ''int'' | PFloat f \<Rightarrow> ''float''
      | PStr s \<Rightarrow> ''str'' | PTuple vs \<Rightarrow> ''tuple'' | PDict d \<Rightarrow> ''dict''
      | PImage i \<Rightarrow> ''Image'' | PFeatures f \<Rightarrow> ''FeatureCollection'')"

text \<open>The truth value of a value, as \<open>if v\<close>, \<open>v or w\<close> and \<open>v and w\<close> test it.\<close>

definition py_truthy :: "pyval \<Rightarrow> bool" where
  "py_truthy v =
     (case v of
        PNone \<Rightarrow> False | PBool b \<Rightarrow> b | PInt i \<Rightarrow> i \<noteq> 0
      | PFloat f \<Rightarrow> (case f of Finite s m e \<Rightarrow> m \<noteq> 0 | Inf s \<Rightarrow> True | NaN \<Rightarrow> True)
      | PStr s \<Rightarrow> s \<noteq> [] | PTuple vs \<Rightarrow> vs \<noteq> [] | PDict d \<Rightarrow> d \<noteq> []
      | PImage i \<Rightarrow> True | PFeatures f \<Rightarrow> True)"

definition py_or :: "pyval \<Rightarrow> pyval \<Rightarrow> pyval" where
  "py_or v w = (if py_truthy v then v else w)"

text \<open>\<open>isinstance(v, (int, float))\<close>; a \<open>bool\<close> is an \<open>int\<close>.\<close>

definition isinstance_int_float :: "pyval \<Rightarrow> bool" where
  "isinstance_int_float v =
     (case v of PInt i \<Rightarrow> True | PBool b \<Rightarrow> True | PFloat f \<Rightarrow> True | _ \<Rightarrow> False)"

text \<open>The float that arithmetic and formatting make of a number; \<open>None\<close> for other values.\<close>

definition as_float :: "pyval \<Rightarrow> (exn + pyfloat) option" where
  "as_float v =
     (case v of
        PFloat f \<Rightarrow> Some (Inr f)
      | PInt i \<Rightarrow> Some (float_of_int i)
      | PBool b \<Rightarrow> Some (float_of_int (if b then 1 else 0))
      | _ \<Rightarrow> None)"

text \<open>\<open>f"{v:.pf}"\<close>.\<close>

definition py_format_f :: "nat \<Rightarrow> pyval \<Rightarrow> exn + string" where
  "py_format_f p v =
     (case as_float v of
        Some r \<Rightarrow> sbind r (\<lambda>x. Inr (format_f p x))
      | None \<Rightarrow>
         (case v of
            PStr s \<Rightarrow> Inl (ValueError (''Unknown format code '' @ [CHR 0x27] @ ''f'' @ [CHR 0x27] @
                           '' for object of type '' @ [CHR 0x27] @ ''str'' @ [CHR 0x27]))
          | _ \<Rightarrow> Inl (TypeError (''unsupported format string passed to '' @ type_name v @
                           ''.__format__''))))"

text \<open>\<open>v * c\<close> and \<open>v - c\<close> for a float \<open>c\<close>.\<close>

definition py_mul_float :: "pyval \<Rightarrow> pyfloat \<Rightarrow> exn + pyfloat" where
  "py_mul_float v c =
     (case as_float v of
        Some r \<Rightarrow> sbind r (\<lambda>x. Inr (fmul x c))
      | None \<Rightarrow>
         (if (case v of PStr s \<Rightarrow> True | PTuple vs \<Rightarrow> True | _ \<Rightarrow> False)
          then Inl (TypeError (''can'' @ [CHR 0x27] @ ''t multiply sequence by non-int of type '' @
                      [CHR 0x27] @ ''float'' @ [CHR 0x27]))
          else Inl (TypeError (''unsupported operand type(s) for *: '' @ [CHR 0x27] @ type_name v @
                      [CHR 0x27] @ '' and '' @ [CHR 0x27] @ ''float'' @ [CHR 0x27]))))"

definition py_sub_float :: "pyval \<Rightarrow> pyfloat \<Rightarrow> exn + pyfloat" where
  "py_sub_float v c =
     (case as_float v of
        Some r \<Rightarrow> sbind r (\<lambda>x. Inr (fsub x c))
      | None \<Rightarrow> Inl (TypeError (''unsupported operand type(s) for -: '' @ [CHR 0x27] @ type_name v @
                      [CHR 0x27] @ '' and '' @ [CHR 0x27] @ ''float'' @ [CHR 0x27])))"

text \<open>
  \<open>v.get(k, dflt)\<close>. In this program the object is a dictionary, or a value that has no
  \<open>get\<close>.
\<close>

definition py_get :: "pyval \<Rightarrow> string \<Rightarrow> pyval \<Rightarrow> exn + pyval" where
  "py_get v k dflt =
     (case v of PDict d \<Rightarrow> Inr (dict_get d k dflt) | _ \<Rightarrow> Inl (AttributeError (type_name v) ''get''))"

text \<open>
  \<open>str(v)\<close>, which an f-string prints for \<open>{v}\<close>. The text of a float, of a container
  and of an Earth Engine object is a parameter \<open>R\<close>.
\<close>

definition py_str :: "(pyval \<Rightarrow> string) \<Rightarrow> pyval \<Rightarrow> string" where
  "py_str R v =
     (case v of
        PStr s \<Rightarrow> s
      | PInt i \<Rightarrow> str_int i
      | PBool b \<Rightarrow> (if b then ''True'' else ''False'')
      | PNone \<Rightarrow> ''None''
      | _ \<Rightarrow> R v)"

definition nl :: string where
  "nl = [CHR 0x0A]"

section \<open>GlacierQA\<close>

text \<open>The generative model: the key of the environment and the answer to a prompt.\<close>

record genai =
  api_key :: "string option"                    \<comment> \<open>\<open>os.getenv('GOOGLE_API_KEY')\<close>\<close>
  generate_content :: "string \<Rightarrow> exn + string"  \<comment> \<open>\<open>model.generate_content(p).text\<close>\<close>

text \<open>\<open>GlacierQA()\<close>: it raises when there is no key.\<close>

definition GlacierQA :: "genai \<Rightarrow> exn + unit" where
  "GlacierQA G =
     (case api_key G of
        None \<Rightarrow> Inl (ValueError ''GOOGLE_API_KEY not found in .env file. Please set it.'')
      | Some k \<Rightarrow> if k = [] then Inl (ValueError ''GOOGLE_API_KEY not found in .env file. Please set it.'')
                  else Inr ())"

text \<open>The lines of \<open>create_context\<close> for \<open>stats_data\<close>; \<open>273.15\<close> is the float nearest to it.\<close>

definition context_stats_part :: "(pyval \<Rightarrow> string) \<Rightarrow> dict \<Rightarrow> pyval \<Rightarrow> exn + string" where
  "context_stats_part R climate_data stats_data =
     sbind (py_get stats_data (py_str R (dict_get climate_data ''variable'' PNone) @ ''_mean'') PNone)
       (\<lambda>mean_temp_k.
     if py_truthy mean_temp_k \<and> dict_get climate_data ''variable'' PNone = PStr ''Tair_f_tavg'' then
       sbind (py_sub_float mean_temp_k (Finite False 2402652809016115 (- 43))) (\<lambda>mean_temp_c.
       sbind (py_format_f 2 mean_temp_k) (\<lambda>k_str.
       sbind (py_format_f 2 (PFloat mean_temp_c)) (\<lambda>c_str.
       Inr (''- Mean Temperature: '' @ k_str @ '' K ('' @ c_str @ '' '' @ [CHR 0xB0] @ ''C)'' @ nl))))
     else
       (case stats_data of
          PDict ((k, v) # d) \<Rightarrow>
            sbind (py_format_f 4 (dict_get ((k, v) # d) k (PStr ''N/A''))) (\<lambda>s.
            Inr (''- Mean Value: '' @ s @ nl))
        | _ \<Rightarrow> Inl (AttributeError (type_name stats_data) ''keys'')))"

text \<open>\<open>avg_vel_str\<close> and \<open>max_vel_str\<close>.\<close>

definition vel_str :: "pyval \<Rightarrow> exn + string" where
  "vel_str vel = (if isinstance_int_float vel then py_format_f 4 vel else Inr ''Not Calculated'')"

text \<open>The lines of \<open>create_context\<close> for \<open>velocity_data\<close>.\<close>

definition context_velocity_part :: "(pyval \<Rightarrow> string) \<Rightarrow> pyval \<Rightarrow> exn + string" where
  "context_velocity_part R velocity_data =
     sbind (py_get velocity_data ''avg_velocity'' PNone) (\<lambda>avg_vel.
     sbind (py_get velocity_data ''max_velocity'' PNone) (\<lambda>max_vel.
     sbind (vel_str avg_vel) (\<lambda>avg_vel_str.
     sbind (vel_str max_vel) (\<lambda>max_vel_str.
     sbind (py_get velocity_data ''date1'' (PStr ''N/A'')) (\<lambda>date1.
     sbind (py_get velocity_data ''date2'' (PStr ''N/A'')) (\<lambda>date2.
     Inr (nl @
       ''        **Glacier Velocity Analysis (Source: Sentinel-2):**'' @ nl @
       ''        - Time Period: '' @ py_str R date1 @ '' to '' @ py_str R date2 @ nl @
       ''        - Average Velocity: '' @ avg_vel_str @ '' m/day'' @ nl @
       ''        - Max Velocity: '' @ max_vel_str @ '' m/day'' @ nl @
       ''        '')))))))"

definition context_background :: string where
  "context_background =
       nl @
       ''        **Scientific Background:**'' @ nl @
       ''        - Glacier velocity often increases with temperature due to surface '' @
       ''meltwater lubricating the glacier bed.'' @ nl @
       ''        - Summer velocities are typically higher than winter velocities.'' @ nl @
       ''        - Air temperature is a primary driver of glacier melt. A mean '' @
       ''temperature above 0'' @ [CHR 0xB0] @ ''C is significant.'' @ nl @
       ''        - Snowfall (accumulation) and melting (ablation) determine a glacier'' @
       [CHR 0x27] @ ''s mass balance and health.'' @ nl @
       ''        ''"

definition create_context ::
  "(pyval \<Rightarrow> string) \<Rightarrow> dict \<Rightarrow> dict \<Rightarrow> dict \<Rightarrow> pyval \<Rightarrow> pyval \<Rightarrow> exn + string" where
  "create_context R glacier_info climate_data date_info stats_data velocity_data =
     sbind (py_format_f 4 (dict_get glacier_info ''lat'' (PStr ''N/A''))) (\<lambda>lat.
     sbind (py_format_f 4 (dict_get glacier_info ''lon'' (PStr ''N/A''))) (\<lambda>lon.
     let context0 =
       nl @
       ''        **GLACIER ANALYSIS CONTEXT:**'' @ nl @
       nl @
       ''        **Location Information:**'' @ nl @
       ''        - Glacier/Location: '' @ py_str R (dict_get glacier_info ''name'' (PStr ''Unknown'')) @
       nl @
       ''        - Coordinates: '' @ lat @ [CHR 0xB0] @ ''N, '' @ lon @ [CHR 0xB0] @ ''E'' @ nl @
       ''        - Analysis Date: '' @ py_str R (dict_get date_info ''date'' (PStr ''N/A'')) @
       nl @
       nl @
       ''        **Climate Data (Source: FLDAS):**'' @ nl @
       ''        - Selected Variable: '' @
       py_str R (dict_get climate_data ''description'' (PStr ''N/A'')) @
       nl @
       ''        ''
     in
     sbind (if py_truthy stats_data then context_stats_part R climate_data stats_data else Inr [])
       (\<lambda>stats_part.
     sbind (if py_truthy velocity_data then context_velocity_part R velocity_data else Inr [])
       (\<lambda>velocity_part.
     Inr (context0 @ stats_part @ velocity_part @ context_background)))))"

definition system_prompt :: string where
  "system_prompt =
       nl @
       ''        You are an expert in glaciology and remote sensing. Your role '' @
       ''is to analyze the provided data context and answer the user'' @ [CHR 0x27] @
       ''s question.'' @ nl @
       ''        - Be concise and clear.'' @ nl @
       ''        - Directly use the data from the context (e.g., temperature values, '' @
       ''velocity).'' @ nl @
       ''        - Explain the scientific reasoning behind your answer.'' @ nl @
       ''        - If data is missing, state what is missing and how it would improve '' @
       ''the analysis.'' @ nl @
       ''        - Keep your response to 2-3 paragraphs.'' @ nl @
       ''        ''"

definition answer_question :: "env \<Rightarrow> genai \<Rightarrow> string \<Rightarrow> string \<Rightarrow> string" where
  "answer_question E G question ctx =
     (let full_prompt = system_prompt @ nl @ nl @ ctx @ nl @ nl @ ''**User Question:** '' @ question
      in case generate_content G full_prompt of
           Inr text \<Rightarrow> text
         | Inl e \<Rightarrow> ''Error generating response: '' @ str_exn E e)"

definition suggest_questions :: "(pyval \<Rightarrow> string) \<Rightarrow> pyval \<Rightarrow> pyval \<Rightarrow> bool \<Rightarrow> string list" where
  "suggest_questions R glacier_name climate_variable has_velocity =
     (let questions =
        [''How might current '' @ py_str R climate_variable @ '' conditions affect '' @
            py_str R glacier_name @ ''?'',
         ''What does this '' @ py_str R climate_variable @ '' data tell us about the glacier'' @
            [CHR 0x27] @ ''s health?'']
      in if has_velocity then
           questions @ [''How does the measured velocity relate to the climate conditions?'',
                        ''Is this velocity typical for a glacier in this region?'']
         else questions)"

section \<open>The pages of the application\<close>

text \<open>
  One run of the Streamlit script: the values of the input widgets are arguments, the session
  state is passed in and out, and the elements that the run displays are listed in order.
\<close>

datatype ui =
    Subheader string
  | Info string
  | Error string
  | Success string
  | Warning string
  | Metric string string                   \<comment> \<open>label, value\<close>
  | Write string
  | Markdown string
  | TextArea string string                 \<comment> \<open>label, text\<close>
  | Button string
  | DownloadButton string string string    \<comment> \<open>label, data, file name\<close>

text \<open>The dictionary \<open>location\<close> of \<open>app.py\<close>, which always has these three keys.\<close>

record location =
  loc_lat :: pyfloat
  loc_lon :: pyfloat
  loc_zoom :: int

text \<open>
  \<open>st.session_state\<close>. \<open>velocity_engine\<close> is set by \<open>app.py\<close> before the pages are
  rendered, to an engine or to \<open>None\<close>; the other keys are absent until a page sets them.
  \<open>qa_latest_question\<close> and \<open>qa_latest_answer\<close> are set together and are held as a pair.
\<close>

record session_state =
  velocity_engine :: "engine option"
  velocity_result :: "pyval option"
  qa_system :: bool
  qa_question_input :: string
  qa_latest :: "(string \<times> string) option"

record page =
  page_ui :: "ui list"
  page_state :: session_state
  page_requests :: "computed list"
  page_rerun :: bool                       \<comment> \<open>the run ended in \<open>st.rerun()\<close>\<close>
  page_raised :: "exn option"              \<comment> \<open>the run ended in an exception\<close>

text \<open>\<open>d[k]\<close>.\<close>

definition py_getitem :: "pyval \<Rightarrow> string \<Rightarrow> exn + pyval" where
  "py_getitem v k =
     (case v of
        PDict d \<Rightarrow> (case map_of d k of None \<Rightarrow> Inl (KeyError k) | Some x \<Rightarrow> Inr x)
      | _ \<Rightarrow> Inl (TypeError ([CHR 0x27] @ type_name v @ [CHR 0x27] @ '' object is not subscriptable'')))"

text \<open>
  The second half of \<open>render_manual_velocity_interface\<close>: what is shown for the stored
  result, and the exception that ended it, if any. \<open>365.25\<close> is the float
  \<open>1461 * 2 ^ -2\<close>.
\<close>

definition velocity_result_view :: "(pyval \<Rightarrow> string) \<Rightarrow> pyval \<Rightarrow> ui list \<times> exn option" where
  "velocity_result_view R result =
     (case py_get result ''success'' PNone of
        Inl e \<Rightarrow> ([], Some e)
      | Inr success \<Rightarrow>
         if py_truthy success then
           (case sbind (py_get result ''stats'' (PDict [])) (\<lambda>stats.
                 sbind (py_get stats ''velocity_mean'' (PInt 0)) (\<lambda>mean0.
                 sbind (py_get stats ''velocity_max'' (PInt 0)) (\<lambda>max0.
                 sbind (py_getitem result ''time_gap_days'') (\<lambda>gap.
                 Inr (py_or mean0 (PInt 0), py_or max0 (PInt 0), gap))))) of
              Inl e \<Rightarrow> ([], Some e)
            | Inr (mean_vel, max_vel, gap) \<Rightarrow>
               let shown1 = [Success (''Analysis Complete for **'' @ py_str R gap @ '' days**.'')] in
               (case py_format_f 2 mean_vel of
                  Inl e \<Rightarrow> (shown1, Some e)
                | Inr mean_text \<Rightarrow>
                   let shown2 = shown1 @ [Metric ''Avg. Velocity'' (mean_text @ '' m/day'')] in
                   (case py_format_f 2 max_vel of
                      Inl e \<Rightarrow> (shown2, Some e)
                    | Inr max_text \<Rightarrow>
                       let shown3 = shown2 @ [Metric ''Max. Velocity'' (max_text @ '' m/day'')] in
                       (case py_mul_float mean_vel (Finite False 1461 (- 2)) of
                          Inl e \<Rightarrow> (shown3, Some e)
                        | Inr annual \<Rightarrow>
                           (shown3 @
                            [Metric ''Est. Annual Speed'' (format_f 1 annual @ '' m/year'')],
                            None)))))
         else
           (case py_get result ''error'' (PStr ''Unknown error'') of
              Inl e \<Rightarrow> ([], Some e)
            | Inr err \<Rightarrow> ([Error (''Analysis Failed: '' @ py_str R err)], None)))"

text \<open>
  \<open>render_manual_velocity_interface\<close>. \<open>date1\<close> and \<open>date2\<close> are the dates of the two
  date inputs and \<open>clicked\<close> says whether the button was pressed.
\<close>

definition render_manual_velocity_interface ::
  "env \<Rightarrow> (pyval \<Rightarrow> string) \<Rightarrow> location \<Rightarrow> string \<Rightarrow> int \<Rightarrow> int \<Rightarrow> bool \<Rightarrow> session_state \<Rightarrow>
     computed list \<Rightarrow> page" where
  "render_manual_velocity_interface E R location selected_glacier date1 date2 clicked st tr =
     (let shown0 =
        [Subheader ''Glacier Velocity Analysis'',
         Info ''Measure glacier speed between two dates using Sentinel-2 satellite imagery.''];
          p =
        (if clicked then
           if date1 \<ge> date2 then
             \<lparr>page_ui = shown0 @ [Error ''End date must be after start date.''],
              page_state = st, page_requests = tr, page_rerun = False, page_raised = None\<rparr>
           else
             (case velocity_engine st of
                None \<Rightarrow>
                  \<lparr>page_ui = shown0, page_state = st, page_requests = tr, page_rerun = False,
                   page_raised = Some (AttributeError ''NoneType'' ''calculate_velocity'')\<rparr>
              | Some engine \<Rightarrow>
                 (case calculate_velocity E engine (loc_lat location) (loc_lon location)
                         (strftime E date1) (strftime E date2) 5 tr of
                    (result, tr') \<Rightarrow>
                      \<lparr>page_ui = shown0, page_state = st\<lparr>velocity_result := Some result\<rparr>,
                       page_requests = tr', page_rerun = True, page_raised = None\<rparr>))
         else \<lparr>page_ui = shown0, page_state = st, page_requests = tr, page_rerun = False,
               page_raised = None\<rparr>)
      in
      if page_rerun p \<or> page_raised p \<noteq> None then p
      else
        (case velocity_result (page_state p) of
           None \<Rightarrow> p
         | Some result \<Rightarrow>
            (case velocity_result_view R result of
               (shown, raised) \<Rightarrow> p\<lparr>page_ui := page_ui p @ shown, page_raised := raised\<rparr>)))"

text \<open>
  \<open>app.py\<close>: the analysis area of the climate map, from the slider \<open>buffer_size\<close>, and the
  velocity tab, which is rendered where \<open>buffer_size\<close> is known.
\<close>

definition analysis_area :: "location \<Rightarrow> int \<Rightarrow> geometry" where
  "analysis_area location buffer_size =
     Buffer (Point (loc_lon location) (loc_lat location)) (buffer_size * 1000)"

definition tab_velocity ::
  "env \<Rightarrow> (pyval \<Rightarrow> string) \<Rightarrow> location \<Rightarrow> string \<Rightarrow> int \<Rightarrow> int \<Rightarrow> int \<Rightarrow> bool \<Rightarrow> session_state \<Rightarrow>
     computed list \<Rightarrow> page" where
  "tab_velocity E R location selected_glacier buffer_size date1 date2 clicked st tr =
     render_manual_velocity_interface E R location selected_glacier date1 date2 clicked st tr"

text \<open>\<open>s.strip()\<close> is not empty: \<open>s\<close> has a character that is not white space.\<close>

definition is_space :: "char \<Rightarrow> bool" where
  "is_space c = ((of_char c :: nat) \<in> {9, 10, 11, 12, 13, 28, 29, 30, 31, 32, 133, 160})"

definition strip_nonempty :: "string \<Rightarrow> bool" where
  "strip_nonempty s = (\<exists>c \<in> set s. \<not> is_space c)"

text \<open>
  \<open>render_ai_assistant_tab\<close>. The text of the question is the item \<open>qa_question_input\<close>
  of the session state, and \<open>clicked\<close> says whether "Get Expert Answer" was pressed.
\<close>

definition render_ai_assistant_tab ::
  "env \<Rightarrow> (pyval \<Rightarrow> string) \<Rightarrow> genai \<Rightarrow> dict \<Rightarrow> dict \<Rightarrow> dict \<Rightarrow> pyval \<Rightarrow> pyval \<Rightarrow> bool \<Rightarrow>
     session_state \<Rightarrow> exn + ui list \<times> session_state" where
  "render_ai_assistant_tab E R G glacier_info climate_data date_info stats_data velocity_data
       clicked st =
     sbind (if qa_system st then Inr st
            else sbind (GlacierQA G) (\<lambda>qa. Inr (st\<lparr>qa_system := True\<rparr>))) (\<lambda>st1.
     let question = qa_question_input st1;
         shown0 = [Subheader ''Ask the AI Glacier Expert'', TextArea ''Your Question:'' question]
     in
     sbind
       (if clicked then
          if strip_nonempty question then
            sbind (create_context R glacier_info climate_data date_info stats_data velocity_data)
              (\<lambda>ctx.
            Inr (shown0, st1\<lparr>qa_latest := Some (question, answer_question E G question ctx)\<rparr>))
          else Inr (shown0 @ [Warning ''Please enter a question.''], st1)
        else Inr (shown0, st1))
       (\<lambda>(shown1, st2).
     let has_velocity = (velocity_data \<noteq> PNone);
         suggestions =
           suggest_questions R (dict_get glacier_info ''name'' (PStr ''this glacier''))
             (dict_get climate_data ''description'' (PStr ''climate data'')) has_velocity;
         shown2 = shown1 @ [Write ''**Suggested Questions:**''] @ map Button suggestions
     in
     (case qa_latest st2 of
        None \<Rightarrow> Inr (shown2, st2)
      | Some (q, a) \<Rightarrow>
         Inr (shown2 @
              [Markdown ''---'', Info (''**Your Question:** '' @ q), Markdown a,
               DownloadButton ''Download Answer''
                 (''Question: '' @ q @ nl @ nl @ ''Answer:'' @ nl @ a) ''glacier_analysis.txt''],
              st2))))"

text \<open>
  \<open>app.py\<close>: the assistant tab is given the stored velocity result itself, or \<open>None\<close>
  when there is none.
\<close>

definition tab_ai ::
  "env \<Rightarrow> (pyval \<Rightarrow> string) \<Rightarrow> genai \<Rightarrow> dict \<Rightarrow> dict \<Rightarrow> dict \<Rightarrow> pyval \<Rightarrow> bool \<Rightarrow>
     session_state \<Rightarrow> exn + ui list \<times> session_state" where
  "tab_ai E R G glacier_info climate_data date_info stats_data clicked st =
     render_ai_assistant_tab E R G glacier_info climate_data date_info stats_data
       (case velocity_result st of None \<Rightarrow> PNone | Some result \<Rightarrow> result) clicked st"

section \<open>Properties of the effects\<close>

lemma bind_lift: "bind (lift r) f tr = (case r of Inl e \<Rightarrow> (Inl e, tr) | Inr x \<Rightarrow> f x tr)"
  by (simp add: bind_def lift_def split: sum.split)

lemma bind_ret: "bind (ret x) f tr = f x tr"
  by (simp add: bind_def ret_def)

lemma bind_getInfo_size:
  "bind (getInfo_size E c) f tr =
     (case size_info E c of Inl e \<Rightarrow> (Inl e, tr @ [c]) | Inr n \<Rightarrow> f n (tr @ [c]))"
  by (simp add: bind_def getInfo_size_def split: sum.split)

lemma bind_getInfo_stats:
  "bind (getInfo_stats E c) f tr =
     (case stats_info E c of Inl e \<Rightarrow> (Inl e, tr @ [c]) | Inr s \<Rightarrow> f s (tr @ [c]))"
  by (simp add: bind_def getInfo_stats_def split: sum.split)

lemma bind_if: "bind (if b then m1 else m2) f tr = (if b then bind m1 f tr else bind m2 f tr)"
  by simp

lemma bind_bind: "bind (bind m g) f tr = bind m (\<lambda>x. bind (g x) f) tr"
  by (simp add: bind_def split: sum.split prod.split)

lemma ret_apply: "ret x tr = (Inr x, tr)"
  by (simp add: ret_def)

lemmas eff_simps =
  bind_lift bind_ret bind_getInfo_size bind_getInfo_stats bind_if bind_bind ret_apply

lemmas cv_defs =
  calculate_velocity_def calculate_velocity_try_def Let_def aoi_of_def window_collection_def
  success_dict_def

section \<open>The outcomes of calculate\_velocity\<close>

lemma calculate_velocity_outcome:
  "(\<exists>msg. fst (calculate_velocity E self lat lon date1 date2 buf tr) = failure msg) \<or>
   (\<exists>dt1 dt2 s1 e1 s2 e2 n1 n2 g stats.
      strptime date1 = Inr dt1 \<and> strptime date2 = Inr dt2 \<and>
      add_days dt1 (- window_days self) = Inr s1 \<and> add_days dt1 (window_days self) = Inr e1 \<and>
      add_days dt2 (- window_days self) = Inr s2 \<and> add_days dt2 (window_days self) = Inr e2 \<and>
      size_info E (IC_size (window_collection E (aoi_of lat lon buf) s1 e1)) = Inr n1 \<and> n1 \<noteq> 0 \<and>
      size_info E (IC_size (window_collection E (aoi_of lat lon buf) s2 e2)) = Inr n2 \<and> n2 \<noteq> 0 \<and>
      size_info E (FC_size (glaciers_of (aoi_of lat lon buf))) = Inr g \<and> g \<noteq> 0 \<and>
      fst (calculate_velocity E self lat lon date1 date2 buf tr) =
        success_dict self (aoi_of lat lon buf) (window_collection E (aoi_of lat lon buf) s1 e1)
          (window_collection E (aoi_of lat lon buf) s2 e2) (time_gap dt1 dt2) stats date1 date2)"
  unfolding cv_defs
  by (simp add: eff_simps failure_def split: sum.split)

lemma calculate_velocity_insufficient:
  assumes "strptime date1 = Inr dt1" "strptime date2 = Inr dt2"
    "add_days dt1 (- window_days self) = Inr s1" "add_days dt1 (window_days self) = Inr e1"
    "add_days dt2 (- window_days self) = Inr s2" "add_days dt2 (window_days self) = Inr e2"
    "size_info E (IC_size (window_collection E (aoi_of lat lon buf) s1 e1)) = Inr n1"
    "size_info E (IC_size (window_collection E (aoi_of lat lon buf) s2 e2)) = Inr n2"
    "n1 = 0 \<or> n2 = 0"
  shows "fst (calculate_velocity E self lat lon date1 date2 buf tr) = failure (insufficient_msg n1 n2)"
  using assms unfolding cv_defs
  by (auto simp add: eff_simps)

lemma calculate_velocity_no_glaciers:
  assumes "strptime date1 = Inr dt1" "strptime date2 = Inr dt2"
    "add_days dt1 (- window_days self) = Inr s1" "add_days dt1 (window_days self) = Inr e1"
    "add_days dt2 (- window_days self) = Inr s2" "add_days dt2 (window_days self) = Inr e2"
    "size_info E (IC_size (window_collection E (aoi_of lat lon buf) s1 e1)) = Inr n1"
    "size_info E (IC_size (window_collection E (aoi_of lat lon buf) s2 e2)) = Inr n2"
    "n1 \<noteq> 0" "n2 \<noteq> 0"
    "size_info E (FC_size (glaciers_of (aoi_of lat lon buf))) = Inr 0"
  shows "calculate_velocity E self lat lon date1 date2 buf tr =
     (failure ''No GLIMS glacier polygons found in the analysis area.'',
      tr @ [IC_size (window_collection E (aoi_of lat lon buf) s1 e1),
            IC_size (window_collection E (aoi_of lat lon buf) s2 e2),
            FC_size (glaciers_of (aoi_of lat lon buf))])"
  using assms unfolding cv_defs
  by (simp add: eff_simps)

lemma calculate_velocity_raises:
  assumes "calculate_velocity_try E self lat lon date1 date2 buf tr = (Inl e, tr')"
  shows "calculate_velocity E self lat lon date1 date2 buf tr =
     (failure (''Velocity calculation failed: '' @ str_exn E e), tr')"
  using assms by (simp add: calculate_velocity_def)

lemma strptime_june: "strptime ''2023-06-01'' = Inr 738672"
  by code_simp

lemma strptime_august: "strptime ''2023-08-31'' = Inr 738763"
  by code_simp

lemma success_dict_time_gap:
  "success_dict self aoi col1 col2 gap stats date1 date2 = PDict d \<Longrightarrow>
   map_of d ''time_gap_days'' = Some (PInt gap) \<and>
   (\<exists>img. map_of d ''velocity_m_day'' = Some (PImage img) \<and> divisor_of img = Some gap)"
  by (auto simp add: success_dict_def speed_final_of_def speed_field_def Let_def)

lemma failure_not_success: "failure msg = PDict d \<Longrightarrow> map_of d ''success'' = Some (PBool False)"
  by (auto simp add: failure_def)

lemma time_gap_max: "time_gap dt1 dt2 = max 1 \<bar>dt2 - dt1\<bar>"
  by (auto simp add: time_gap_def Let_def max_def)

lemma sample_env_simps:
  "size_info (sample_env n g st) (IC_size c) = Inr n"
  "size_info (sample_env n g st) (FC_size f) = Inr g"
  "stats_info (sample_env n g st) r = Inr st"
  "str_exn (sample_env n g st) = str_exn_text"
  "strftime (sample_env n g st) = strftime_iso"
  by (simp_all add: sample_env_def)

lemma add_days_sample:
  "add_days 738672 (- window_days GlacierVelocityEngine) = Inr 738642"
  "add_days 738672 (window_days GlacierVelocityEngine) = Inr 738702"
  "add_days 738763 (- window_days GlacierVelocityEngine) = Inr 738733"
  "add_days 738763 (window_days GlacierVelocityEngine) = Inr 738793"
  by (simp_all add: add_days_def GlacierVelocityEngine_def max_ordinal_def)

lemma dated_env_simps:
  "size_info (dated_env images g st) (IC_size c) = Inr (images (start_date c))"
  "size_info (dated_env images g st) (FC_size f) = Inr g"
  "stats_info (dated_env images g st) r = Inr st"
  "str_exn (dated_env images g st) = str_exn_text"
  "strftime (dated_env images g st) = strftime_iso"
  by (simp_all add: dated_env_def)

lemma start_date_window:
  "start_date (window_collection E aoi s e) = strftime E s"
  by (simp add: window_collection_def get_sentinel2_collection_def)

lemma strftime_iso_sample:
  "strftime_iso 738642 = ''2023-05-02''"
  "strftime_iso 738733 = ''2023-08-01''"
  by code_simp+

section \<open>Numerals\<close>

lemma digit_cases:
  "0 \<le> d \<Longrightarrow> d < 10 \<Longrightarrow>
   d = 0 \<or> d = 1 \<or> d = 2 \<or> d = 3 \<or> d = 4 \<or> d = 5 \<or> d = 6 \<or> d = 7 \<or> d = 8 \<or> d = (9::int)"
  by arith

lemma digit_char_simps:
  "digit_char 0 = CHR ''0''" "digit_char 1 = CHR ''1''" "digit_char 2 = CHR ''2''"
  "digit_char 3 = CHR ''3''" "digit_char 4 = CHR ''4''" "digit_char 5 = CHR ''5''"
  "digit_char 6 = CHR ''6''" "digit_char 7 = CHR ''7''" "digit_char 8 = CHR ''8''"
  "digit_char 9 = CHR ''9''"
  by code_simp+

lemma is_digit_digit_char: "0 \<le> d \<Longrightarrow> d < 10 \<Longrightarrow> is_digit (digit_char d)"
  using digit_cases [of d] by (auto simp add: is_digit_def digit_char_simps)

lemma digit_val_digit_char: "0 \<le> d \<Longrightarrow> d < 10 \<Longrightarrow> digit_val (digit_char d) = d"
  using digit_cases [of d] by (auto simp add: digit_val_def digit_char_simps)

lemma digits_value_snoc:
  "0 \<le> d \<Longrightarrow> d < 10 \<Longrightarrow>
   digits_value a (xs @ [digit_char d]) = map_option (\<lambda>v. 10 * v + d) (digits_value a xs)"
  by (induction xs arbitrary: a) (simp_all add: is_digit_digit_char digit_val_digit_char)

lemma digits_value_dec_digits: "0 \<le> n \<Longrightarrow> digits_value 0 (dec_digits n) = Some n"
proof (induction n rule: dec_digits.induct)
  case (1 n)
  show ?case
  proof (cases "n < 10")
    case True
    then show ?thesis
      using 1(2) by (subst dec_digits.simps) (simp add: is_digit_digit_char digit_val_digit_char)
  next
    case False
    then have "digits_value 0 (dec_digits (n div 10)) = Some (n div 10)"
      using 1 by simp
    then show ?thesis
      using False by (subst dec_digits.simps) (simp add: digits_value_snoc)
  qed
qed

lemma dec_digits_digits: "0 \<le> n \<Longrightarrow> c \<in> set (dec_digits n) \<Longrightarrow> is_digit c"
proof (induction n rule: dec_digits.induct)
  case (1 n)
  show ?case
  proof (cases "n < 10")
    case True
    then show ?thesis
      using 1(2,3) by (subst (asm) dec_digits.simps) (simp add: is_digit_digit_char)
  next
    case False
    then have "c \<in> set (dec_digits (n div 10)) \<or> c = digit_char (n mod 10)"
      using 1(3) by (subst (asm) dec_digits.simps) auto
    then show ?thesis
      using 1(1) [OF False] False by (auto simp add: is_digit_digit_char)
  qed
qed

lemma dec_digits_not_Nil: "dec_digits n \<noteq> []"
  by (subst dec_digits.simps) simp

lemma numeral_value_str_int: "numeral_value (str_int i) = Some i"
proof (cases "i < 0")
  case True
  then show ?thesis
    by (simp add: numeral_value_def str_int_def dec_digits_not_Nil digits_value_dec_digits)
next
  case False
  obtain c cs where cs: "dec_digits i = c # cs"
    using dec_digits_not_Nil [of i] by (cases "dec_digits i") auto
  then have "is_digit c"
    using dec_digits_digits [of i c] False by simp
  then have "c \<noteq> CHR ''-''"
    by (auto simp add: is_digit_def)
  moreover have "digits_value 0 (c # cs) = Some i"
    using digits_value_dec_digits [of i] cs False by simp
  ultimately show ?thesis
    using False cs by (simp add: numeral_value_def str_int_def del: digits_value.simps)
qed

lemma calculate_velocity_succeeds:
  assumes "strptime date1 = Inr dt1" "strptime date2 = Inr dt2"
    "add_days dt1 (- window_days self) = Inr s1" "add_days dt1 (window_days self) = Inr e1"
    "add_days dt2 (- window_days self) = Inr s2" "add_days dt2 (window_days self) = Inr e2"
    "size_info E (IC_size (window_collection E (aoi_of lat lon buf) s1 e1)) = Inr n1"
    "size_info E (IC_size (window_collection E (aoi_of lat lon buf) s2 e2)) = Inr n2"
    "n1 \<noteq> 0" "n2 \<noteq> 0"
    "size_info E (FC_size (glaciers_of (aoi_of lat lon buf))) = Inr g" "g \<noteq> 0"
    "stats_info E (stats_request
       (speed_final_of (speed_field self (window_collection E (aoi_of lat lon buf) s1 e1)
          (window_collection E (aoi_of lat lon buf) s2 e2) (time_gap dt1 dt2))
          (glaciers_of (aoi_of lat lon buf))) (aoi_of lat lon buf)) = Inr stats"
  shows "calculate_velocity E self lat lon date1 date2 buf tr =
     (success_dict self (aoi_of lat lon buf) (window_collection E (aoi_of lat lon buf) s1 e1)
        (window_collection E (aoi_of lat lon buf) s2 e2) (time_gap dt1 dt2) stats date1 date2,
      tr @ [IC_size (window_collection E (aoi_of lat lon buf) s1 e1),
            IC_size (window_collection E (aoi_of lat lon buf) s2 e2),
            FC_size (glaciers_of (aoi_of lat lon buf)),
            stats_request
              (speed_final_of (speed_field self (window_collection E (aoi_of lat lon buf) s1 e1)
                 (window_collection E (aoi_of lat lon buf) s2 e2) (time_gap dt1 dt2))
                 (glaciers_of (aoi_of lat lon buf))) (aoi_of lat lon buf)])"
  using assms unfolding cv_defs
  by (simp add: eff_simps)


lemma sample_env_succeeds:
  assumes "strptime date1 = Inr dt1" "strptime date2 = Inr dt2"
    "add_days dt1 (- window_days self) = Inr s1" "add_days dt1 (window_days self) = Inr e1"
    "add_days dt2 (- window_days self) = Inr s2" "add_days dt2 (window_days self) = Inr e2"
    "n \<noteq> 0" "g \<noteq> 0"
  shows "\<exists>d. fst (calculate_velocity (sample_env n g st) self lat lon date1 date2 buf tr) = PDict d \<and>
     map_of d ''success'' = Some (PBool True)"
proof -
  have "calculate_velocity (sample_env n g st) self lat lon date1 date2 buf tr =
     (success_dict self (aoi_of lat lon buf)
        (window_collection (sample_env n g st) (aoi_of lat lon buf) s1 e1)
        (window_collection (sample_env n g st) (aoi_of lat lon buf) s2 e2)
        (time_gap dt1 dt2) st date1 date2,
      tr @ [IC_size (window_collection (sample_env n g st) (aoi_of lat lon buf) s1 e1),
            IC_size (window_collection (sample_env n g st) (aoi_of lat lon buf) s2 e2),
            FC_size (glaciers_of (aoi_of lat lon buf)),
            stats_request
              (speed_final_of (speed_field self (window_collection (sample_env n g st) (aoi_of lat lon buf) s1 e1)
                 (window_collection (sample_env n g st) (aoi_of lat lon buf) s2 e2) (time_gap dt1 dt2))
                 (glaciers_of (aoi_of lat lon buf))) (aoi_of lat lon buf)])"
    by (rule calculate_velocity_succeeds [OF assms(1-6)]) (rule sample_env_simps assms)+
  then show ?thesis
    by (simp add: success_dict_def)
qed

section \<open>The velocity page\<close>

lemma render_valid_dates:
  assumes "date1 < date2" "velocity_engine st = Some engine"
  shows "render_manual_velocity_interface E R location selected_glacier date1 date2 True st tr =
     \<lparr>page_ui = [Subheader ''Glacier Velocity Analysis'',
                 Info ''Measure glacier speed between two dates using Sentinel-2 satellite imagery.''],
      page_state = st\<lparr>velocity_result :=
        Some (fst (calculate_velocity E engine (loc_lat location) (loc_lon location)
                     (strftime E date1) (strftime E date2) 5 tr))\<rparr>,
      page_requests = snd (calculate_velocity E engine (loc_lat location) (loc_lon location)
                     (strftime E date1) (strftime E date2) 5 tr),
      page_rerun = True, page_raised = None\<rparr>"
  using assms
  by (simp add: render_manual_velocity_interface_def Let_def split: prod.split)

lemma failing_env_simps:
  "size_info (failing_env msg) c = Inl (EEException msg)"
  "stats_info (failing_env msg) c = Inl (EEException msg)"
  "str_exn (failing_env msg) = str_exn_text"
  "strftime (failing_env msg) = strftime_iso"
  by (simp_all add: failing_env_def)

lemma failing_env_run:
  assumes "strptime date1 = Inr dt1" "strptime date2 = Inr dt2"
    "add_days dt1 (- window_days self) = Inr s1" "add_days dt1 (window_days self) = Inr e1"
    "add_days dt2 (- window_days self) = Inr s2" "add_days dt2 (window_days self) = Inr e2"
  shows "calculate_velocity (failing_env msg) self lat lon date1 date2 buf tr =
     (failure (''Velocity calculation failed: '' @ msg),
      tr @ [IC_size (window_collection (failing_env msg) (aoi_of lat lon buf) s1 e1)])"
  using assms unfolding cv_defs
  by (simp add: eff_simps failing_env_simps str_exn_text_def)

lemma strftime_iso_dates:
  "strftime_iso 738672 = ''2023-06-01''"
  "strftime_iso 738763 = ''2023-08-31''"
  "strftime_iso 738702 = ''2023-07-01''"
  "strftime_iso 738793 = ''2023-09-30''"
  by code_simp+

section \<open>Claims about calculate\_velocity\<close>

text \<open>
  C2. When both dates parse and their windows of \<open>window_days\<close> days on each side can be formed,
  and the server reports \<open>n1\<close> images for the first window and \<open>n2\<close> for the second, one of
  them zero, \<open>calculate_velocity\<close> returns exactly \<open>{success: False, error: msg}\<close>, where
  \<open>msg\<close> is the text of the source with the numeral of \<open>n1\<close> after "Period 1 had" and the
  numeral of \<open>n2\<close> after "Period 2 had"; each numeral reads back as the count it prints. The
  result has no \<open>velocity_m_day\<close> entry.
\<close>

theorem insufficient_imagery_reports_both_counts:
  assumes "strptime date1 = Inr dt1" "strptime date2 = Inr dt2"
    "add_days dt1 (- window_days self) = Inr s1" "add_days dt1 (window_days self) = Inr e1"
    "add_days dt2 (- window_days self) = Inr s2" "add_days dt2 (window_days self) = Inr e2"
    "size_info E (IC_size (window_collection E (aoi_of lat lon buf) s1 e1)) = Inr n1"
    "size_info E (IC_size (window_collection E (aoi_of lat lon buf) s2 e2)) = Inr n2"
    "n1 = 0 \<or> n2 = 0"
  shows "fst (calculate_velocity E self lat lon date1 date2 buf tr) =
            PDict [(''success'', PBool False),
                   (''error'', PStr (''Insufficient cloud-free images found. Period 1 had '' @
                       str_int n1 @ '' images, Period 2 had '' @ str_int n2 @
                       ''. Try different dates.''))] \<and>
         numeral_value (str_int n1) = Some n1 \<and> numeral_value (str_int n2) = Some n2 \<and>
         dict_get [(''success'', PBool False),
                   (''error'', PStr (''Insufficient cloud-free images found. Period 1 had '' @
                       str_int n1 @ '' images, Period 2 had '' @ str_int n2 @
                       ''. Try different dates.''))]
            ''velocity_m_day'' PNone = PNone"
proof -
  have "fst (calculate_velocity E self lat lon date1 date2 buf tr) = failure (insufficient_msg n1 n2)"
    using assms by (rule calculate_velocity_insufficient)
  then show ?thesis
    by (simp add: failure_def dict_get_def insufficient_msg_def numeral_value_str_int)
qed

theorem insufficient_imagery_reports_both_counts_witness:
  "fst (calculate_velocity (dated_env (\<lambda>s. if s = ''2023-05-02'' then 3 else 0) 4 sample_stats)
          GlacierVelocityEngine (Finite False 61 (-1)) (Finite False 80 0)
          ''2023-06-01'' ''2023-08-31'' 5 []) =
     PDict [(''success'', PBool False),
            (''error'', PStr ''Insufficient cloud-free images found. Period 1 had 3 images, Period 2 had 0. Try different dates.'')] \<and>
   fst (calculate_velocity (dated_env (\<lambda>s. if s = ''2023-08-01'' then 120 else 0) 4 sample_stats)
          GlacierVelocityEngine (Finite False 61 (-1)) (Finite False 80 0)
          ''2023-06-01'' ''2023-08-31'' 5 []) =
     PDict [(''success'', PBool False),
            (''error'', PStr ''Insufficient cloud-free images found. Period 1 had 0 images, Period 2 had 120. Try different dates.'')]"
proof -
  have n: "str_int 0 = ''0''" "str_int 3 = ''3''" "str_int 120 = ''120''"
    by code_simp+
  have a1: "size_info (dated_env (\<lambda>s. if s = ''2023-05-02'' then 3 else 0) 4 sample_stats)
      (IC_size (window_collection (dated_env (\<lambda>s. if s = ''2023-05-02'' then 3 else 0) 4 sample_stats)
         (aoi_of (Finite False 61 (-1)) (Finite False 80 0) 5) 738642 738702)) = Inr 3"
    by (simp add: dated_env_simps start_date_window strftime_iso_sample)
  have a2: "size_info (dated_env (\<lambda>s. if s = ''2023-05-02'' then 3 else 0) 4 sample_stats)
      (IC_size (window_collection (dated_env (\<lambda>s. if s = ''2023-05-02'' then 3 else 0) 4 sample_stats)
         (aoi_of (Finite False 61 (-1)) (Finite False 80 0) 5) 738733 738793)) = Inr 0"
    by (simp add: dated_env_simps start_date_window strftime_iso_sample)
  have b1: "size_info (dated_env (\<lambda>s. if s = ''2023-08-01'' then 120 else 0) 4 sample_stats)
      (IC_size (window_collection (dated_env (\<lambda>s. if s = ''2023-08-01'' then 120 else 0) 4 sample_stats)
         (aoi_of (Finite False 61 (-1)) (Finite False 80 0) 5) 738642 738702)) = Inr 0"
    by (simp add: dated_env_simps start_date_window strftime_iso_sample)
  have b2: "size_info (dated_env (\<lambda>s. if s = ''2023-08-01'' then 120 else 0) 4 sample_stats)
      (IC_size (window_collection (dated_env (\<lambda>s. if s = ''2023-08-01'' then 120 else 0) 4 sample_stats)
         (aoi_of (Finite False 61 (-1)) (Finite False 80 0) 5) 738733 738793)) = Inr 120"
    by (simp add: dated_env_simps start_date_window strftime_iso_sample)
  have d: "(3::int) = 0 \<or> (0::int) = 0" "(0::int) = 0 \<or> (120::int) = 0"
    by simp_all
  from insufficient_imagery_reports_both_counts
      [OF strptime_june strptime_august add_days_sample(1) add_days_sample(2)
          add_days_sample(3) add_days_sample(4) a1 a2 d(1), of "[]"]
    insufficient_imagery_reports_both_counts
      [OF strptime_june strptime_august add_days_sample(1) add_days_sample(2)
          add_days_sample(3) add_days_sample(4) b1 b2 d(2), of "[]"]
  show ?thesis by (simp add: n)
qed

text \<open>
  C4. When both dates parse, to the days \<open>dt1\<close> and \<open>dt2\<close>, and \<open>calculate_velocity\<close>
  succeeds, the \<open>time_gap_days\<close> of the result is \<open>|dt2 - dt1|\<close>, or 1 when that is 0; the
  velocity image of the result is a quotient by that same number; and the number is never 0.
  The dates 2023-06-01 and 2023-08-31 give 91, in either order, and two equal dates give 1.
\<close>

theorem elapsed_days_clamped:
  assumes "strptime date1 = Inr dt1" "strptime date2 = Inr dt2"
    and "fst (calculate_velocity E self lat lon date1 date2 buf tr) = PDict d"
    and "map_of d ''success'' = Some (PBool True)"
  shows "map_of d ''time_gap_days'' = Some (PInt (if \<bar>dt2 - dt1\<bar> = 0 then 1 else \<bar>dt2 - dt1\<bar>)) \<and>
         (\<exists>img. map_of d ''velocity_m_day'' = Some (PImage img) \<and>
                divisor_of img = Some (if \<bar>dt2 - dt1\<bar> = 0 then 1 else \<bar>dt2 - dt1\<bar>)) \<and>
         (if \<bar>dt2 - dt1\<bar> = 0 then 1 else \<bar>dt2 - dt1\<bar>) \<noteq> 0"
proof -
  from calculate_velocity_outcome [of E self lat lon date1 date2 buf tr]
  show ?thesis
  proof (elim disjE exE conjE)
    fix msg
    assume "fst (calculate_velocity E self lat lon date1 date2 buf tr) = failure msg"
    then have "failure msg = PDict d" using assms(3) by simp
    from failure_not_success [OF this] assms(4) show ?thesis by simp
  next
    fix a b s1 e1 s2 e2 n1 n2 g stats
    assume p: "strptime date1 = Inr a" "strptime date2 = Inr b"
      and r: "fst (calculate_velocity E self lat lon date1 date2 buf tr) =
          success_dict self (aoi_of lat lon buf) (window_collection E (aoi_of lat lon buf) s1 e1)
            (window_collection E (aoi_of lat lon buf) s2 e2) (time_gap a b) stats date1 date2"
    from p assms(1,2) have ab: "a = dt1" "b = dt2" by simp_all
    from r assms(3) have
      "success_dict self (aoi_of lat lon buf) (window_collection E (aoi_of lat lon buf) s1 e1)
            (window_collection E (aoi_of lat lon buf) s2 e2) (time_gap dt1 dt2) stats date1 date2 = PDict d"
      by (simp add: ab)
    from success_dict_time_gap [OF this] show ?thesis
      by (simp add: time_gap_def Let_def)
  qed
qed


theorem elapsed_days_clamped_witness:
  "(\<exists>d. fst (calculate_velocity (sample_env 3 4 sample_stats) GlacierVelocityEngine
            (Finite False 61 (-1)) (Finite False 80 0) ''2023-06-01'' ''2023-08-31'' 5 []) = PDict d \<and>
        map_of d ''success'' = Some (PBool True) \<and>
        map_of d ''time_gap_days'' = Some (PInt 91) \<and>
        (\<exists>img. map_of d ''velocity_m_day'' = Some (PImage img) \<and> divisor_of img = Some 91)) \<and>
   (\<exists>d. fst (calculate_velocity (sample_env 3 4 sample_stats) GlacierVelocityEngine
            (Finite False 61 (-1)) (Finite False 80 0) ''2023-08-31'' ''2023-06-01'' 5 []) = PDict d \<and>
        map_of d ''success'' = Some (PBool True) \<and>
        map_of d ''time_gap_days'' = Some (PInt 91) \<and>
        (\<exists>img. map_of d ''velocity_m_day'' = Some (PImage img) \<and> divisor_of img = Some 91)) \<and>
   (\<exists>d. fst (calculate_velocity (sample_env 3 4 sample_stats) GlacierVelocityEngine
            (Finite False 61 (-1)) (Finite False 80 0) ''2023-06-01'' ''2023-06-01'' 5 []) = PDict d \<and>
        map_of d ''success'' = Some (PBool True) \<and>
        map_of d ''time_gap_days'' = Some (PInt 1) \<and>
        (\<exists>img. map_of d ''velocity_m_day'' = Some (PImage img) \<and> divisor_of img = Some 1))"
proof -
  have n: "(3::int) \<noteq> 0" "(4::int) \<noteq> 0" by simp_all
  obtain d1 where d1:
    "fst (calculate_velocity (sample_env 3 4 sample_stats) GlacierVelocityEngine
            (Finite False 61 (-1)) (Finite False 80 0) ''2023-06-01'' ''2023-08-31'' 5 []) = PDict d1"
    "map_of d1 ''success'' = Some (PBool True)"
    using sample_env_succeeds [OF strptime_june strptime_august add_days_sample n] by blast
  obtain d2 where d2:
    "fst (calculate_velocity (sample_env 3 4 sample_stats) GlacierVelocityEngine
            (Finite False 61 (-1)) (Finite False 80 0) ''2023-08-31'' ''2023-06-01'' 5 []) = PDict d2"
    "map_of d2 ''success'' = Some (PBool True)"
    using sample_env_succeeds [OF strptime_august strptime_june add_days_sample(3,4,1,2) n] by blast
  obtain d3 where d3:
    "fst (calculate_velocity (sample_env 3 4 sample_stats) GlacierVelocityEngine
            (Finite False 61 (-1)) (Finite False 80 0) ''2023-06-01'' ''2023-06-01'' 5 []) = PDict d3"
    "map_of d3 ''success'' = Some (PBool True)"
    using sample_env_succeeds [OF strptime_june strptime_june add_days_sample(1,2,1,2) n] by blast
  from elapsed_days_clamped [OF strptime_june strptime_august d1]
    elapsed_days_clamped [OF strptime_august strptime_june d2]
    elapsed_days_clamped [OF strptime_june strptime_june d3]
    d1 d2 d3
  show ?thesis by simp
qed

text \<open>
  C5. When the server reports no glacier polygon in the analysis area, \<open>calculate_velocity\<close>
  returns \<open>{success: False, error: msg}\<close> for some message. When moreover both dates parse,
  the windows can be formed and the server reports images in both windows, the message is
  "No GLIMS glacier polygons found in the analysis area.", and the requests sent to the server
  are the two image counts and then the polygon count, in this order, and nothing after: no
  statistics are requested.
\<close>

theorem no_glacier_polygons_is_failure:
  assumes "size_info E (FC_size (glaciers_of (aoi_of lat lon buf))) = Inr 0"
  shows "(\<exists>msg. fst (calculate_velocity E self lat lon date1 date2 buf tr) =
            PDict [(''success'', PBool False), (''error'', PStr msg)]) \<and>
         (strptime date1 = Inr dt1 \<and> strptime date2 = Inr dt2 \<and>
          add_days dt1 (- window_days self) = Inr s1 \<and> add_days dt1 (window_days self) = Inr e1 \<and>
          add_days dt2 (- window_days self) = Inr s2 \<and> add_days dt2 (window_days self) = Inr e2 \<and>
          size_info E (IC_size (window_collection E (aoi_of lat lon buf) s1 e1)) = Inr n1 \<and> n1 \<noteq> 0 \<and>
          size_info E (IC_size (window_collection E (aoi_of lat lon buf) s2 e2)) = Inr n2 \<and> n2 \<noteq> 0
          \<longrightarrow>
          calculate_velocity E self lat lon date1 date2 buf tr =
            (PDict [(''success'', PBool False),
                    (''error'', PStr ''No GLIMS glacier polygons found in the analysis area.'')],
             tr @ [IC_size (window_collection E (aoi_of lat lon buf) s1 e1),
                   IC_size (window_collection E (aoi_of lat lon buf) s2 e2),
                   FC_size (glaciers_of (aoi_of lat lon buf))]))"
proof (intro conjI impI)
  from calculate_velocity_outcome [of E self lat lon date1 date2 buf tr]
  show "\<exists>msg. fst (calculate_velocity E self lat lon date1 date2 buf tr) =
            PDict [(''success'', PBool False), (''error'', PStr msg)]"
    using assms by (auto simp add: failure_def)
next
  assume "strptime date1 = Inr dt1 \<and> strptime date2 = Inr dt2 \<and>
          add_days dt1 (- window_days self) = Inr s1 \<and> add_days dt1 (window_days self) = Inr e1 \<and>
          add_days dt2 (- window_days self) = Inr s2 \<and> add_days dt2 (window_days self) = Inr e2 \<and>
          size_info E (IC_size (window_collection E (aoi_of lat lon buf) s1 e1)) = Inr n1 \<and> n1 \<noteq> 0 \<and>
          size_info E (IC_size (window_collection E (aoi_of lat lon buf) s2 e2)) = Inr n2 \<and> n2 \<noteq> 0"
  then show "calculate_velocity E self lat lon date1 date2 buf tr =
            (PDict [(''success'', PBool False),
                    (''error'', PStr ''No GLIMS glacier polygons found in the analysis area.'')],
             tr @ [IC_size (window_collection E (aoi_of lat lon buf) s1 e1),
                   IC_size (window_collection E (aoi_of lat lon buf) s2 e2),
                   FC_size (glaciers_of (aoi_of lat lon buf))])"
    using calculate_velocity_no_glaciers [of date1 dt1 date2 dt2 self s1 e1 s2 e2 E lat lon buf n1 n2 tr]
      assms
    by (simp add: failure_def)
qed

theorem no_glacier_polygons_is_failure_witness:
  "calculate_velocity (dated_env (\<lambda>s. if s = ''2023-05-02'' then 3 else 7) 0 sample_stats)
      GlacierVelocityEngine (Finite False 61 (-1)) (Finite False 80 0)
      ''2023-06-01'' ''2023-08-31'' 5 [] =
     (PDict [(''success'', PBool False),
             (''error'', PStr ''No GLIMS glacier polygons found in the analysis area.'')],
      [IC_size (get_sentinel2_collection (Buffer (Point (Finite False 80 0) (Finite False 61 (-1))) 5000)
                  ''2023-05-02'' ''2023-07-01''),
       IC_size (get_sentinel2_collection (Buffer (Point (Finite False 80 0) (Finite False 61 (-1))) 5000)
                  ''2023-08-01'' ''2023-09-30''),
       FC_size (FC_filterBounds (FeatureCollection ''GLIMS/20230607'')
                  (Buffer (Point (Finite False 80 0) (Finite False 61 (-1))) 5000))])"
proof -
  let ?E = "dated_env (\<lambda>s. if s = ''2023-05-02'' then 3 else 7) 0 sample_stats"
  have g: "size_info ?E (FC_size (glaciers_of (aoi_of (Finite False 61 (-1)) (Finite False 80 0) 5))) = Inr 0"
    by (rule dated_env_simps)
  have a1: "size_info ?E (IC_size (window_collection ?E
         (aoi_of (Finite False 61 (-1)) (Finite False 80 0) 5) 738642 738702)) = Inr 3"
    by (simp add: dated_env_simps start_date_window strftime_iso_sample)
  have a2: "size_info ?E (IC_size (window_collection ?E
         (aoi_of (Finite False 61 (-1)) (Finite False 80 0) 5) 738733 738793)) = Inr 7"
    by (simp add: dated_env_simps start_date_window strftime_iso_sample)
  have s: "strftime_iso 738702 = ''2023-07-01''" "strftime_iso 738793 = ''2023-09-30''"
    by code_simp+
  have "calculate_velocity ?E GlacierVelocityEngine (Finite False 61 (-1)) (Finite False 80 0)
      ''2023-06-01'' ''2023-08-31'' 5 [] =
     (PDict [(''success'', PBool False),
             (''error'', PStr ''No GLIMS glacier polygons found in the analysis area.'')],
      [] @ [IC_size (window_collection ?E (aoi_of (Finite False 61 (-1)) (Finite False 80 0) 5) 738642 738702),
       IC_size (window_collection ?E (aoi_of (Finite False 61 (-1)) (Finite False 80 0) 5) 738733 738793),
       FC_size (glaciers_of (aoi_of (Finite False 61 (-1)) (Finite False 80 0) 5))])"
    using no_glacier_polygons_is_failure [OF g, of GlacierVelocityEngine "''2023-06-01''" "''2023-08-31''" "[]"
      738672 738763 738642 738702 738733 738793 3 7]
      strptime_june strptime_august add_days_sample a1 a2
    by simp
  then show ?thesis
    by (simp add: window_collection_def aoi_of_def glaciers_of_def dated_env_simps
        strftime_iso_sample s)
qed

section \<open>Claims about the pages\<close>

text \<open>
  C6. When the button of the velocity page is pressed with a start date that is not before the
  end date, the page shows the error "End date must be after start date." right after its
  heading, the session state (and the stored velocity result in it) is unchanged, no request
  is added to those sent to the server, and the run does not end in a rerun.
\<close>

theorem invalid_dates_rejected_before_any_request:
  assumes "date2 \<le> date1"
  shows "page_state (render_manual_velocity_interface E R location selected_glacier
                       date1 date2 True st tr) = st \<and>
         page_requests (render_manual_velocity_interface E R location selected_glacier
                       date1 date2 True st tr) = tr \<and>
         \<not> page_rerun (render_manual_velocity_interface E R location selected_glacier
                       date1 date2 True st tr) \<and>
         take 3 (page_ui (render_manual_velocity_interface E R location selected_glacier
                       date1 date2 True st tr)) =
           [Subheader ''Glacier Velocity Analysis'',
            Info ''Measure glacier speed between two dates using Sentinel-2 satellite imagery.'',
            Error ''End date must be after start date.'']"
  using assms
  by (simp add: render_manual_velocity_interface_def Let_def split: option.split prod.split)

theorem invalid_dates_rejected_before_any_request_witness:
  "render_manual_velocity_interface (failing_env ''Computation timed out.'') (\<lambda>v. [])
      \<lparr>loc_lat = Finite False 4267160646933545 (- 47),
       loc_lon = Finite False 5626684784446013 (- 46), loc_zoom = 12\<rparr>
      ''Pindari Glacier'' 738763 738672 True
      \<lparr>velocity_engine = Some GlacierVelocityEngine, velocity_result = None, qa_system = False,
       qa_question_input = [], qa_latest = None\<rparr> [] =
    \<lparr>page_ui = [Subheader ''Glacier Velocity Analysis'',
                Info ''Measure glacier speed between two dates using Sentinel-2 satellite imagery.'',
                Error ''End date must be after start date.''],
     page_state = \<lparr>velocity_engine = Some GlacierVelocityEngine, velocity_result = None,
                   qa_system = False, qa_question_input = [], qa_latest = None\<rparr>,
     page_requests = [], page_rerun = False, page_raised = None\<rparr> \<and>
   page_state (render_manual_velocity_interface (failing_env ''Computation timed out.'') (\<lambda>v. [])
      \<lparr>loc_lat = Finite False 4267160646933545 (- 47),
       loc_lon = Finite False 5626684784446013 (- 46), loc_zoom = 12\<rparr>
      ''Pindari Glacier'' 738672 738672 True
      \<lparr>velocity_engine = Some GlacierVelocityEngine,
       velocity_result = Some (PDict [(''success'', PBool False), (''error'', PStr ''earlier'')]),
       qa_system = False, qa_question_input = [], qa_latest = None\<rparr> []) =
      \<lparr>velocity_engine = Some GlacierVelocityEngine,
       velocity_result = Some (PDict [(''success'', PBool False), (''error'', PStr ''earlier'')]),
       qa_system = False, qa_question_input = [], qa_latest = None\<rparr> \<and>
   page_requests (render_manual_velocity_interface (failing_env ''Computation timed out.'') (\<lambda>v. [])
      \<lparr>loc_lat = Finite False 4267160646933545 (- 47),
       loc_lon = Finite False 5626684784446013 (- 46), loc_zoom = 12\<rparr>
      ''Pindari Glacier'' 738672 738763 True
      \<lparr>velocity_engine = Some GlacierVelocityEngine, velocity_result = None, qa_system = False,
       qa_question_input = [], qa_latest = None\<rparr> []) =
     [IC_size (get_sentinel2_collection
        (Buffer (Point (Finite False 5626684784446013 (- 46)) (Finite False 4267160646933545 (- 47)))
           5000) ''2023-05-02'' ''2023-07-01'')]"
proof -
  have v: "page_requests (render_manual_velocity_interface (failing_env ''Computation timed out.'') (\<lambda>v. [])
      \<lparr>loc_lat = Finite False 4267160646933545 (- 47),
       loc_lon = Finite False 5626684784446013 (- 46), loc_zoom = 12\<rparr>
      ''Pindari Glacier'' 738672 738763 True
      \<lparr>velocity_engine = Some GlacierVelocityEngine, velocity_result = None, qa_system = False,
       qa_question_input = [], qa_latest = None\<rparr> []) =
     [IC_size (get_sentinel2_collection
        (Buffer (Point (Finite False 5626684784446013 (- 46)) (Finite False 4267160646933545 (- 47)))
           5000) ''2023-05-02'' ''2023-07-01'')]"
    by (subst render_valid_dates [where engine = GlacierVelocityEngine])
       (simp_all add: failing_env_simps strftime_iso_dates strftime_iso_sample
          failing_env_run [OF strptime_june strptime_august add_days_sample]
          window_collection_def aoi_of_def)
  have d: "(738672::int) \<le> 738763" "(738672::int) \<le> 738672"
    by simp_all
  have "page_ui (render_manual_velocity_interface (failing_env ''Computation timed out.'') (\<lambda>v. [])
      \<lparr>loc_lat = Finite False 4267160646933545 (- 47),
       loc_lon = Finite False 5626684784446013 (- 46), loc_zoom = 12\<rparr>
      ''Pindari Glacier'' 738763 738672 True
      \<lparr>velocity_engine = Some GlacierVelocityEngine, velocity_result = None, qa_system = False,
       qa_question_input = [], qa_latest = None\<rparr> []) =
      [Subheader ''Glacier Velocity Analysis'',
       Info ''Measure glacier speed between two dates using Sentinel-2 satellite imagery.'',
       Error ''End date must be after start date.''] \<and>
    page_raised (render_manual_velocity_interface (failing_env ''Computation timed out.'') (\<lambda>v. [])
      \<lparr>loc_lat = Finite False 4267160646933545 (- 47),
       loc_lon = Finite False 5626684784446013 (- 46), loc_zoom = 12\<rparr>
      ''Pindari Glacier'' 738763 738672 True
      \<lparr>velocity_engine = Some GlacierVelocityEngine, velocity_result = None, qa_system = False,
       qa_question_input = [], qa_latest = None\<rparr> []) = None"
    by (simp add: render_manual_velocity_interface_def Let_def)
  then show ?thesis
    using invalid_dates_rejected_before_any_request [OF d(1),
        of "failing_env ''Computation timed out.''" "\<lambda>v. []"
        "\<lparr>loc_lat = Finite False 4267160646933545 (- 47),
          loc_lon = Finite False 5626684784446013 (- 46), loc_zoom = 12\<rparr>"
        "''Pindari Glacier''"
        "\<lparr>velocity_engine = Some GlacierVelocityEngine, velocity_result = None, qa_system = False,
          qa_question_input = [], qa_latest = None\<rparr>" "[]"]
      invalid_dates_rejected_before_any_request [OF d(2),
        of "failing_env ''Computation timed out.''" "\<lambda>v. []"
        "\<lparr>loc_lat = Finite False 4267160646933545 (- 47),
          loc_lon = Finite False 5626684784446013 (- 46), loc_zoom = 12\<rparr>"
        "''Pindari Glacier''"
        "\<lparr>velocity_engine = Some GlacierVelocityEngine,
          velocity_result = Some (PDict [(''success'', PBool False), (''error'', PStr ''earlier'')]),
          qa_system = False, qa_question_input = [], qa_latest = None\<rparr>" "[]"]
    by (simp add: page.equality v)
qed



end
